theory Spec2Isabelle
  imports Complex_Main
begin

section \<open>JavaScript numbers and values\<close>

text \<open>
  The store of \<^verbatim>\<open>src/App.tsx\<close> holds what \<^verbatim>\<open>JSON.parse\<close> returned, so a field that
  TypeScript declares as \<^verbatim>\<open>number\<close> may hold any value at run time. The code reads such
  fields through \<^verbatim>\<open>Number(x)\<close>, \<^verbatim>\<open>x || 0\<close> and the arithmetic operators, whose results
  depend on \<^verbatim>\<open>NaN\<close> and on the infinities. A number is therefore \<^verbatim>\<open>NaN\<close>, an infinity or
  a finite value. Finite doubles are idealised as reals: rounding, overflow and the sign of
  zero are not modelled.
\<close>

datatype jsnum = NaN | NegInf | Fin real | PosInf

instantiation jsnum :: "{zero, plus, uminus, minus, times}"
begin

definition zero_jsnum :: jsnum where
  "zero_jsnum = Fin 0"

fun plus_jsnum :: "jsnum \<Rightarrow> jsnum \<Rightarrow> jsnum" where
  "plus_jsnum NaN _ = NaN"
| "plus_jsnum _ NaN = NaN"
| "plus_jsnum (Fin a) (Fin b) = Fin (a + b)"
| "plus_jsnum PosInf NegInf = NaN"
| "plus_jsnum NegInf PosInf = NaN"
| "plus_jsnum PosInf _ = PosInf"
| "plus_jsnum _ PosInf = PosInf"
| "plus_jsnum NegInf _ = NegInf"
| "plus_jsnum _ NegInf = NegInf"

fun uminus_jsnum :: "jsnum \<Rightarrow> jsnum" where
  "uminus_jsnum NaN = NaN"
| "uminus_jsnum NegInf = PosInf"
| "uminus_jsnum (Fin a) = Fin (- a)"
| "uminus_jsnum PosInf = NegInf"

definition minus_jsnum :: "jsnum \<Rightarrow> jsnum \<Rightarrow> jsnum" where
  "minus_jsnum a b = a + (- b)"

fun times_jsnum :: "jsnum \<Rightarrow> jsnum \<Rightarrow> jsnum" where
  "times_jsnum NaN _ = NaN"
| "times_jsnum _ NaN = NaN"
| "times_jsnum (Fin a) (Fin b) = Fin (a * b)"
| "times_jsnum (Fin a) PosInf = (if a = 0 then NaN else if 0 < a then PosInf else NegInf)"
| "times_jsnum (Fin a) NegInf = (if a = 0 then NaN else if 0 < a then NegInf else PosInf)"
| "times_jsnum PosInf (Fin b) = (if b = 0 then NaN else if 0 < b then PosInf else NegInf)"
| "times_jsnum NegInf (Fin b) = (if b = 0 then NaN else if 0 < b then NegInf else PosInf)"
| "times_jsnum PosInf PosInf = PosInf"
| "times_jsnum NegInf NegInf = PosInf"
| "times_jsnum PosInf NegInf = NegInf"
| "times_jsnum NegInf PosInf = NegInf"

instance ..

end

text \<open>Addition is associative and commutative with unit \<open>0\<close>, so \<open>sum_list\<close> applies.\<close>

instance jsnum :: comm_monoid_add
proof (standard, goal_cases)
  case (1 x y z)
  show ?case by (cases x; cases y; cases z) simp_all
next
  case (2 x y)
  show ?case by (cases x; cases y) simp_all
next
  case (3 x)
  show ?case by (cases x) (simp_all add: zero_jsnum_def)
qed

text \<open>The comparisons \<^verbatim>\<open><=\<close> and \<^verbatim>\<open><\<close>: false as soon as one side is \<^verbatim>\<open>NaN\<close>.\<close>

fun js_le :: "jsnum \<Rightarrow> jsnum \<Rightarrow> bool" where
  "js_le NaN _ = False"
| "js_le _ NaN = False"
| "js_le (Fin a) (Fin b) = (a \<le> b)"
| "js_le NegInf _ = True"
| "js_le _ PosInf = True"
| "js_le _ _ = False"

fun js_lt :: "jsnum \<Rightarrow> jsnum \<Rightarrow> bool" where
  "js_lt NaN _ = False"
| "js_lt _ NaN = False"
| "js_lt (Fin a) (Fin b) = (a < b)"
| "js_lt NegInf NegInf = False"
| "js_lt NegInf _ = True"
| "js_lt PosInf PosInf = False"
| "js_lt _ PosInf = True"
| "js_lt _ _ = False"

text \<open>\<^verbatim>\<open>Math.max(a, b)\<close>: \<^verbatim>\<open>NaN\<close> when an argument is \<^verbatim>\<open>NaN\<close>, the larger one otherwise.\<close>

definition Math_max :: "jsnum \<Rightarrow> jsnum \<Rightarrow> jsnum" where
  "Math_max a b = (if a = NaN \<or> b = NaN then NaN else if js_lt a b then b else a)"

text \<open>\<^verbatim>\<open>n || 0\<close> on a number: the falsy numbers are \<^verbatim>\<open>NaN\<close> and zero.\<close>

definition num_or_0 :: "jsnum \<Rightarrow> jsnum" where
  "num_or_0 n = (if n = NaN \<or> n = Fin 0 then Fin 0 else n)"

definition finite_num :: "jsnum \<Rightarrow> bool" where
  "finite_num n = (case n of Fin _ \<Rightarrow> True | _ \<Rightarrow> False)"

subsection \<open>Values\<close>

text \<open>
  The values \<^verbatim>\<open>JSON.parse\<close> produces, and \<^verbatim>\<open>undefined\<close> for a property that is absent.
\<close>

datatype jsval =
    Undefined
  | Null
  | Bool bool
  | Num jsnum
  | Str string
  | Arr "jsval list"
  | Obj "(string \<times> jsval) list"

text \<open>
  \<^verbatim>\<open>StringToNumber\<close> of ECMAScript on ASCII text: surrounding white space is dropped, the
  empty string is \<open>0\<close>, then a hexadecimal, octal or binary integer literal, or an
  optionally signed decimal literal (\<^verbatim>\<open>Infinity\<close>, digits, fraction, exponent); anything
  else is \<^verbatim>\<open>NaN\<close>. The value is exact, where JavaScript rounds to a double, overflows to
  an infinity and underflows to zero; white space outside ASCII is not dropped.
\<close>

definition is_ws :: "char \<Rightarrow> bool" where
  "is_ws c = ((of_char c :: nat) \<in> {9, 10, 11, 12, 13, 32})"

definition trim :: "string \<Rightarrow> string" where
  "trim s = rev (dropWhile is_ws (rev (dropWhile is_ws s)))"

definition digit_of :: "char \<Rightarrow> nat option" where
  "digit_of c =
     (let n = (of_char c :: nat)
      in if 48 \<le> n \<and> n \<le> 57 then Some (n - 48)
         else if 97 \<le> n \<and> n \<le> 102 then Some (n - 87)
         else if 65 \<le> n \<and> n \<le> 70 then Some (n - 55)
         else None)"

fun digits_value :: "nat \<Rightarrow> nat \<Rightarrow> string \<Rightarrow> nat option" where
  "digits_value b acc [] = Some acc"
| "digits_value b acc (c # cs) =
     (case digit_of c of
        None \<Rightarrow> None
      | Some d \<Rightarrow> if d < b then digits_value b (acc * b + d) cs else None)"

definition read_digits :: "nat \<Rightarrow> string \<Rightarrow> nat option" where
  "read_digits b s = (if s = [] then None else digits_value b 0 s)"

definition is_dec :: "char \<Rightarrow> bool" where
  "is_dec c = (case digit_of c of None \<Rightarrow> False | Some d \<Rightarrow> d < 10)"

definition dec_value :: "string \<Rightarrow> nat" where
  "dec_value s = (case digits_value 10 0 s of None \<Rightarrow> 0 | Some n \<Rightarrow> n)"

definition SignedInteger :: "string \<Rightarrow> int option" where
  "SignedInteger s =
     (if s \<noteq> [] \<and> hd s = CHR ''+'' then map_option int (read_digits 10 (tl s))
      else if s \<noteq> [] \<and> hd s = CHR ''-'' then map_option (\<lambda>n. - int n) (read_digits 10 (tl s))
      else map_option int (read_digits 10 s))"

definition ExponentPart :: "string \<Rightarrow> int option" where
  "ExponentPart s =
     (if s = [] then Some 0
      else if hd s = CHR ''e'' \<or> hd s = CHR ''E'' then SignedInteger (tl s)
      else None)"

definition pow10 :: "int \<Rightarrow> real" where
  "pow10 e = (if 0 \<le> e then 10 ^ nat e else 1 / 10 ^ nat (- e))"

definition StrUnsignedDecimalLiteral :: "string \<Rightarrow> jsnum" where
  "StrUnsignedDecimalLiteral s =
     (if s = ''Infinity'' then PosInf
      else
        let ip = takeWhile is_dec s;
            r1 = dropWhile is_dec s;
            dot = (r1 \<noteq> [] \<and> hd r1 = CHR ''.'');
            fp = (if dot then takeWhile is_dec (tl r1) else []);
            r2 = (if dot then dropWhile is_dec (tl r1) else r1)
        in if ip = [] \<and> fp = [] then NaN
           else (case ExponentPart r2 of
                   None \<Rightarrow> NaN
                 | Some e \<Rightarrow>
                     Fin ((real (dec_value ip) + real (dec_value fp) / 10 ^ length fp) * pow10 e)))"

definition StrDecimalLiteral :: "string \<Rightarrow> jsnum" where
  "StrDecimalLiteral s =
     (if s \<noteq> [] \<and> hd s = CHR ''+'' then StrUnsignedDecimalLiteral (tl s)
      else if s \<noteq> [] \<and> hd s = CHR ''-'' then - StrUnsignedDecimalLiteral (tl s)
      else StrUnsignedDecimalLiteral s)"

definition NonDecimalIntegerLiteral :: "string \<Rightarrow> nat option" where
  "NonDecimalIntegerLiteral s =
     (case s of
        z # x # ds \<Rightarrow>
          if z \<noteq> CHR ''0'' then None
          else if x = CHR ''x'' \<or> x = CHR ''X'' then read_digits 16 ds
          else if x = CHR ''o'' \<or> x = CHR ''O'' then read_digits 8 ds
          else if x = CHR ''b'' \<or> x = CHR ''B'' then read_digits 2 ds
          else None
      | _ \<Rightarrow> None)"

definition StringToNumber :: "string \<Rightarrow> jsnum" where
  "StringToNumber s =
     (let t = trim s
      in if t = [] then Fin 0
         else (case NonDecimalIntegerLiteral t of
                 Some n \<Rightarrow> Fin (real n)
               | None \<Rightarrow> StrDecimalLiteral t))"

text \<open>
  \<^verbatim>\<open>Number(v)\<close>. An array is converted through its string form: the empty array is the
  empty string, a one-element array is its element's string (empty for \<^verbatim>\<open>null\<close> and
  \<^verbatim>\<open>undefined\<close>), and a longer one contains a comma, which no numeric literal does. A
  plain object's string form is \<^verbatim>\<open>[object Object]\<close>. An object with an own property
  \<^verbatim>\<open>toString\<close>, on which \<^verbatim>\<open>Number\<close> throws a \<^verbatim>\<open>TypeError\<close>, has no counterpart here:
  the conversion of every object is \<^verbatim>\<open>NaN\<close>.
\<close>

fun ToNumber :: "jsval \<Rightarrow> jsnum" where
  "ToNumber Undefined = NaN"
| "ToNumber Null = Fin 0"
| "ToNumber (Bool b) = (if b then Fin 1 else Fin 0)"
| "ToNumber (Num n) = n"
| "ToNumber (Str s) = StringToNumber s"
| "ToNumber (Obj kvs) = NaN"
| "ToNumber (Arr []) = Fin 0"
| "ToNumber (Arr [Undefined]) = Fin 0"
| "ToNumber (Arr [Null]) = Fin 0"
| "ToNumber (Arr [Bool b]) = NaN"
| "ToNumber (Arr [Num n]) = n"
| "ToNumber (Arr [Str s]) = StringToNumber s"
| "ToNumber (Arr [Obj kvs]) = NaN"
| "ToNumber (Arr [Arr xs]) = ToNumber (Arr xs)"
| "ToNumber (Arr (x # y # zs)) = NaN"

text \<open>\<^verbatim>\<open>ToBoolean\<close>, which decides \<^verbatim>\<open>||\<close>, \<^verbatim>\<open>?:\<close> and \<^verbatim>\<open>if\<close>.\<close>

fun truthy :: "jsval \<Rightarrow> bool" where
  "truthy Undefined = False"
| "truthy Null = False"
| "truthy (Bool b) = b"
| "truthy (Num n) = (n \<noteq> NaN \<and> n \<noteq> Fin 0)"
| "truthy (Str s) = (s \<noteq> [])"
| "truthy (Arr xs) = True"
| "truthy (Obj kvs) = True"

text \<open>\<^verbatim>\<open>v || 0\<close> on a value: the value itself when it is truthy.\<close>

definition val_or_0 :: "jsval \<Rightarrow> jsval" where
  "val_or_0 v = (if truthy v then v else Num (Fin 0))"

section \<open>The data model\<close>

text \<open>
  The records of \<^verbatim>\<open>./types\<close>, with the properties \<^verbatim>\<open>App.tsx\<close> reads or writes. An
  identifier and a stock-out's reason are strings, compared with \<^verbatim>\<open>===\<close>; a numeric
  property holds any value; the last field of each record carries the properties the code
  never names, which an object spread copies. A sale's \<^verbatim>\<open>items\<close> is an array or absent
  (\<^verbatim>\<open>s.items || []\<close>).
\<close>

record Product =
  p_id :: string
  p_name :: jsval
  p_price :: jsval
  p_cost :: jsval
  p_stock :: jsval
  p_minStock :: jsval
  p_lastUpdated :: jsval
  p_rest :: "(string \<times> jsval) list"

record SaleItem =
  i_productId :: string
  i_quantity :: jsval
  i_rest :: "(string \<times> jsval) list"

record Sale =
  s_items :: "SaleItem list option"
  s_total :: jsval
  s_rest :: "(string \<times> jsval) list"

record Expense =
  e_amount :: jsval
  e_rest :: "(string \<times> jsval) list"

record StockOutType =
  so_productId :: string
  so_quantity :: jsval
  so_reason :: string
  so_rest :: "(string \<times> jsval) list"

record DashboardStats =
  totalRevenue :: jsnum
  totalProfit :: jsnum
  totalSales :: nat
  totalExpenses :: jsnum
  lowStockCount :: nat

text \<open>The five pieces of React state of \<^verbatim>\<open>App\<close> that are persisted.\<close>

record State =
  products :: "Product list"
  sales :: "Sale list"
  expenses :: "Expense list"
  stockOuts :: "StockOutType list"
  shopSettings :: jsval

section \<open>The calculation engine\<close>

text \<open>
  \<^verbatim>\<open>stats\<close> of \<^verbatim>\<open>App.tsx\<close>, one definition for each \<^verbatim>\<open>const\<close> of the \<^verbatim>\<open>useMemo\<close>
  body. \<^verbatim>\<open>reduce\<close> with an initial value is \<open>foldl\<close>, \<^verbatim>\<open>products.find\<close> is \<open>find\<close>.
\<close>

definition find_product :: "Product list \<Rightarrow> string \<Rightarrow> Product option" where
  "find_product ps pid = find (\<lambda>p. p_id p = pid) ps"

definition baseRevenue :: "State \<Rightarrow> jsnum" where
  "baseRevenue st = foldl (\<lambda>acc s. acc + num_or_0 (ToNumber (s_total s))) 0 (sales st)"

text \<open>\<^verbatim>\<open>product?.price || 0\<close>, converted to a number by the multiplication.\<close>

definition price_or_0 :: "Product option \<Rightarrow> jsnum" where
  "price_or_0 product =
     ToNumber (val_or_0 (case product of None \<Rightarrow> Undefined | Some p \<Rightarrow> p_price p))"

definition sale_stockOuts :: "State \<Rightarrow> StockOutType list" where
  "sale_stockOuts st = filter (\<lambda>so. so_reason so = ''Sale'') (stockOuts st)"

definition stockOutRevenue :: "State \<Rightarrow> jsnum" where
  "stockOutRevenue st =
     foldl (\<lambda>acc so.
              let product = find_product (products st) (so_productId so)
              in acc + ToNumber (so_quantity so) * price_or_0 product)
       0 (sale_stockOuts st)"

definition totalExpenses_of :: "State \<Rightarrow> jsnum" where
  "totalExpenses_of st = foldl (\<lambda>acc e. acc + num_or_0 (ToNumber (e_amount e))) 0 (expenses st)"

text \<open>\<^verbatim>\<open>const cost = product ? (Number(product.cost) || 0) : 0\<close>.\<close>

definition item_cost :: "Product option \<Rightarrow> jsnum" where
  "item_cost product =
     (case product of None \<Rightarrow> Fin 0 | Some p \<Rightarrow> num_or_0 (ToNumber (p_cost p)))"

text \<open>\<^verbatim>\<open>s.items || []\<close>.\<close>

definition items_of :: "Sale \<Rightarrow> SaleItem list" where
  "items_of s = (case s_items s of None \<Rightarrow> [] | Some its \<Rightarrow> its)"

definition saleCogs :: "Product list \<Rightarrow> Sale \<Rightarrow> jsnum" where
  "saleCogs ps s =
     foldl (\<lambda>itemAcc item.
              let product = find_product ps (i_productId item);
                  cost = item_cost product
              in itemAcc + cost * num_or_0 (ToNumber (i_quantity item)))
       0 (items_of s)"

definition salesProfit :: "State \<Rightarrow> jsnum" where
  "salesProfit st =
     foldl (\<lambda>acc s. acc + (ToNumber (s_total s) - saleCogs (products st) s)) 0 (sales st)"

definition stockOutProfit :: "State \<Rightarrow> jsnum" where
  "stockOutProfit st =
     foldl (\<lambda>acc so.
              case find_product (products st) (so_productId so) of
                None \<Rightarrow> acc
              | Some p \<Rightarrow>
                  let profitPerUnit = ToNumber (p_price p) - ToNumber (p_cost p)
                  in acc + profitPerUnit * ToNumber (so_quantity so))
       0 (sale_stockOuts st)"

definition is_low_stock :: "Product \<Rightarrow> bool" where
  "is_low_stock p =
     js_le (num_or_0 (ToNumber (p_stock p))) (num_or_0 (ToNumber (p_minStock p)))"

definition stats :: "State \<Rightarrow> DashboardStats" where
  "stats st =
     \<lparr> totalRevenue = baseRevenue st + stockOutRevenue st,
       totalProfit = (salesProfit st + stockOutProfit st) - totalExpenses_of st,
       totalSales = length (sales st) + length (sale_stockOuts st),
       totalExpenses = totalExpenses_of st,
       lowStockCount = length (filter is_low_stock (products st)) \<rparr>"

section \<open>The action handlers\<close>

text \<open>
  Each handler is the state update it queues. \<^verbatim>\<open>handleRecordStockOut\<close> reads the clock
  (\<^verbatim>\<open>new Date().toISOString()\<close>), which is the argument \<open>now\<close>.
\<close>

definition handleUpdateProduct :: "Product \<Rightarrow> State \<Rightarrow> State" where
  "handleUpdateProduct updatedProduct st =
     st\<lparr>products := map (\<lambda>p. if p_id p = p_id updatedProduct then updatedProduct else p)
                        (products st)\<rparr>"

definition handleAddProduct :: "Product \<Rightarrow> State \<Rightarrow> State" where
  "handleAddProduct newProduct st = st\<lparr>products := newProduct # products st\<rparr>"

definition handleDeleteProduct :: "string \<Rightarrow> State \<Rightarrow> State" where
  "handleDeleteProduct productId st =
     st\<lparr>products := filter (\<lambda>p. p_id p \<noteq> productId) (products st)\<rparr>"

definition handleAddExpense :: "Expense \<Rightarrow> State \<Rightarrow> State" where
  "handleAddExpense newExpense st = st\<lparr>expenses := expenses st @ [newExpense]\<rparr>"

definition decrement_stock :: "string \<Rightarrow> StockOutType \<Rightarrow> Product \<Rightarrow> Product" where
  "decrement_stock now record p =
     (if p_id p = so_productId record
      then p\<lparr>p_stock := Num (Math_max (Fin 0) (ToNumber (p_stock p) - ToNumber (so_quantity record))),
             p_lastUpdated := Str now\<rparr>
      else p)"

definition handleRecordStockOut :: "string \<Rightarrow> StockOutType \<Rightarrow> State \<Rightarrow> State" where
  "handleRecordStockOut now record st =
     st\<lparr>stockOuts := stockOuts st @ [record],
        products := map (decrement_stock now record) (products st)\<rparr>"

definition handleUpdateSettings :: "jsval \<Rightarrow> State \<Rightarrow> State" where
  "handleUpdateSettings newSettings st = st\<lparr>shopSettings := newSettings\<rparr>"

text \<open>A call of a handler, and a run of calls from a state.\<close>

datatype Mutation =
    AddProduct Product
  | UpdateProduct Product
  | DeleteProduct string
  | AddExpense Expense
  | RecordStockOut string StockOutType
  | UpdateSettings jsval

fun apply_mutation :: "State \<Rightarrow> Mutation \<Rightarrow> State" where
  "apply_mutation st (AddProduct p) = handleAddProduct p st"
| "apply_mutation st (UpdateProduct p) = handleUpdateProduct p st"
| "apply_mutation st (DeleteProduct pid) = handleDeleteProduct pid st"
| "apply_mutation st (AddExpense e) = handleAddExpense e st"
| "apply_mutation st (RecordStockOut now r) = handleRecordStockOut now r st"
| "apply_mutation st (UpdateSettings s) = handleUpdateSettings s st"

definition run_mutations :: "State \<Rightarrow> Mutation list \<Rightarrow> State" where
  "run_mutations st ms = foldl apply_mutation st ms"

section \<open>Loading the stores\<close>

text \<open>
  The \<^verbatim>\<open>useState\<close> initialisers. \<^verbatim>\<open>localStorage.getItem\<close> returns a string or
  \<^verbatim>\<open>null\<close>, or throws; \<^verbatim>\<open>JSON.parse\<close> returns a value or throws. Both are arguments,
  and so is \<^verbatim>\<open>INITIAL_PRODUCTS\<close> of \<^verbatim>\<open>./constants\<close>. The body of a \<^verbatim>\<open>try\<close> block
  throws, returns a value, or falls through to the statement after the block.
\<close>

datatype exn = SecurityError | SyntaxError

type_synonym JSON_parse = "string \<Rightarrow> exn + jsval"

type_synonym getItem = "string \<Rightarrow> exn + string option"

fun isArray :: "jsval \<Rightarrow> bool" where
  "isArray (Arr xs) = True"
| "isArray _ = False"

text \<open>
  The four collection initialisers share one shape:
  \<^verbatim>\<open>try { const saved = getItem(key); if (saved) { const parsed = JSON.parse(saved);
  return Array.isArray(parsed) ? parsed : dflt; } } catch (e) { console.error(..) }
  return dflt;\<close>
\<close>

definition array_try_block :: "string \<Rightarrow> jsval \<Rightarrow> JSON_parse \<Rightarrow> getItem \<Rightarrow> exn + jsval option" where
  "array_try_block key dflt parse get =
     (case get key of
        Inl e \<Rightarrow> Inl e
      | Inr None \<Rightarrow> Inr None
      | Inr (Some saved) \<Rightarrow>
          if saved = [] then Inr None
          else (case parse saved of
                  Inl e \<Rightarrow> Inl e
                | Inr parsed \<Rightarrow> Inr (Some (if isArray parsed then parsed else dflt))))"

definition array_initializer :: "string \<Rightarrow> jsval \<Rightarrow> JSON_parse \<Rightarrow> getItem \<Rightarrow> exn + jsval" where
  "array_initializer key dflt parse get =
     (case array_try_block key dflt parse get of
        Inl e \<Rightarrow> Inr dflt
      | Inr (Some v) \<Rightarrow> Inr v
      | Inr None \<Rightarrow> Inr dflt)"

definition products_initializer :: "jsval \<Rightarrow> JSON_parse \<Rightarrow> getItem \<Rightarrow> exn + jsval" where
  "products_initializer INITIAL_PRODUCTS = array_initializer ''sm_products_v2'' INITIAL_PRODUCTS"

definition sales_initializer :: "JSON_parse \<Rightarrow> getItem \<Rightarrow> exn + jsval" where
  "sales_initializer = array_initializer ''sm_sales_v2'' (Arr [])"

definition expenses_initializer :: "JSON_parse \<Rightarrow> getItem \<Rightarrow> exn + jsval" where
  "expenses_initializer = array_initializer ''sm_expenses_v2'' (Arr [])"

definition stockOuts_initializer :: "JSON_parse \<Rightarrow> getItem \<Rightarrow> exn + jsval" where
  "stockOuts_initializer = array_initializer ''sm_stockouts_v2'' (Arr [])"

text \<open>\<^verbatim>\<open>DEFAULT_SETTINGS\<close>; its time stamp is read from the clock when the module loads.\<close>

definition DEFAULT_SETTINGS :: "string \<Rightarrow> jsval" where
  "DEFAULT_SETTINGS now =
     Obj [(''returnPolicy'',
           Obj [(''enabled'', Bool False),
                (''content'', Str ''Items can be returned within 7 days of purchase in original packaging. Receipt is mandatory.''),
                (''lastUpdated'', Str now)])]"

text \<open>The settings initialiser returns whatever \<^verbatim>\<open>JSON.parse\<close> gave.\<close>

definition settings_try_block :: "JSON_parse \<Rightarrow> getItem \<Rightarrow> exn + jsval option" where
  "settings_try_block parse get =
     (case get ''sm_settings_v2'' of
        Inl e \<Rightarrow> Inl e
      | Inr None \<Rightarrow> Inr None
      | Inr (Some saved) \<Rightarrow>
          if saved = [] then Inr None
          else (case parse saved of
                  Inl e \<Rightarrow> Inl e
                | Inr parsed \<Rightarrow> Inr (Some parsed)))"

definition shopSettings_initializer :: "string \<Rightarrow> JSON_parse \<Rightarrow> getItem \<Rightarrow> exn + jsval" where
  "shopSettings_initializer now parse get =
     (case settings_try_block parse get of
        Inl e \<Rightarrow> Inr (DEFAULT_SETTINGS now)
      | Inr (Some v) \<Rightarrow> Inr v
      | Inr None \<Rightarrow> Inr (DEFAULT_SETTINGS now))"

section \<open>Definitions used by the properties\<close>

subsection \<open>The specification's reading of the metrics\<close>

text \<open>
  The specification treats a value that is not a number as zero, and defines each metric
  as a sum over a collection. These definitions follow its wording; the theorems below
  compare them with \<open>stats\<close>.
\<close>

definition coerce_zero :: "jsval \<Rightarrow> jsnum" where
  "coerce_zero v = (case ToNumber v of NaN \<Rightarrow> Fin 0 | n \<Rightarrow> n)"

definition numeric :: "jsval \<Rightarrow> bool" where
  "numeric v = (ToNumber v \<noteq> NaN)"

definition spec_matching_price :: "Product list \<Rightarrow> string \<Rightarrow> jsnum" where
  "spec_matching_price ps pid =
     (case find_product ps pid of None \<Rightarrow> 0 | Some p \<Rightarrow> coerce_zero (p_price p))"

definition spec_matching_cost :: "Product list \<Rightarrow> string \<Rightarrow> jsnum" where
  "spec_matching_cost ps pid =
     (case find_product ps pid of None \<Rightarrow> 0 | Some p \<Rightarrow> coerce_zero (p_cost p))"

definition spec_directSalesRevenue :: "State \<Rightarrow> jsnum" where
  "spec_directSalesRevenue st = sum_list (map (\<lambda>s. coerce_zero (s_total s)) (sales st))"

definition spec_stockOutSalesRevenue :: "State \<Rightarrow> jsnum" where
  "spec_stockOutSalesRevenue st =
     sum_list (map (\<lambda>so. coerce_zero (so_quantity so) *
                          spec_matching_price (products st) (so_productId so))
                 (filter (\<lambda>so. so_reason so = ''Sale'') (stockOuts st)))"

definition spec_totalRevenue :: "State \<Rightarrow> jsnum" where
  "spec_totalRevenue st = spec_directSalesRevenue st + spec_stockOutSalesRevenue st"

definition spec_totalExpenses :: "State \<Rightarrow> jsnum" where
  "spec_totalExpenses st = sum_list (map (\<lambda>e. coerce_zero (e_amount e)) (expenses st))"

definition spec_salesProfit :: "State \<Rightarrow> jsnum" where
  "spec_salesProfit st =
     sum_list (map (\<lambda>s. coerce_zero (s_total s) -
                         sum_list (map (\<lambda>item. spec_matching_cost (products st) (i_productId item) *
                                                coerce_zero (i_quantity item))
                                     (items_of s)))
                 (sales st))"

definition spec_stockOutProfit :: "State \<Rightarrow> jsnum" where
  "spec_stockOutProfit st =
     sum_list (map (\<lambda>so. case find_product (products st) (so_productId so) of
                            None \<Rightarrow> 0
                          | Some p \<Rightarrow> (coerce_zero (p_price p) - coerce_zero (p_cost p)) *
                                      coerce_zero (so_quantity so))
                 (filter (\<lambda>so. so_reason so = ''Sale'') (stockOuts st)))"

definition spec_totalProfit :: "State \<Rightarrow> jsnum" where
  "spec_totalProfit st = (spec_salesProfit st + spec_stockOutProfit st) - spec_totalExpenses st"

definition spec_low_stock :: "Product \<Rightarrow> bool" where
  "spec_low_stock p = js_le (coerce_zero (p_stock p)) (coerce_zero (p_minStock p))"

text \<open>
  The fields that \<open>stats\<close> reads without \<^verbatim>\<open>|| 0\<close>: the quantity of a stock-out sold, a
  price that is present, and for the profit a sale's total and the price and cost of a
  product.
\<close>

definition revenue_fields_numeric :: "State \<Rightarrow> bool" where
  "revenue_fields_numeric st \<longleftrightarrow>
     (\<forall>so \<in> set (sale_stockOuts st). numeric (so_quantity so)) \<and>
     (\<forall>p \<in> set (products st). truthy (p_price p) \<longrightarrow> numeric (p_price p))"

definition profit_fields_numeric :: "State \<Rightarrow> bool" where
  "profit_fields_numeric st \<longleftrightarrow>
     (\<forall>s \<in> set (sales st). numeric (s_total s)) \<and>
     (\<forall>so \<in> set (sale_stockOuts st). numeric (so_quantity so)) \<and>
     (\<forall>p \<in> set (products st). numeric (p_price p) \<and> numeric (p_cost p))"

text \<open>What one stock-out adds to the accumulator of \<open>stockOutProfit\<close>.\<close>

definition stockOut_unit_profit :: "Product list \<Rightarrow> StockOutType \<Rightarrow> jsnum" where
  "stockOut_unit_profit ps so =
     (case find_product ps (so_productId so) of
        None \<Rightarrow> 0
      | Some p \<Rightarrow> (ToNumber (p_price p) - ToNumber (p_cost p)) * ToNumber (so_quantity so))"

subsection \<open>Stock levels and runs of handler calls\<close>

definition stock_nonneg :: "Product \<Rightarrow> bool" where
  "stock_nonneg p = js_le (Fin 0) (ToNumber (p_stock p))"

definition all_stock_nonneg :: "State \<Rightarrow> bool" where
  "all_stock_nonneg st = list_all stock_nonneg (products st)"

text \<open>
  A call is admissible when the product it stores has a non-negative stock, and the
  quantity it subtracts is a finite number.
\<close>

fun admissible :: "Mutation \<Rightarrow> bool" where
  "admissible (AddProduct p) = stock_nonneg p"
| "admissible (UpdateProduct p) = stock_nonneg p"
| "admissible (RecordStockOut now r) = finite_num (ToNumber (so_quantity r))"
| "admissible _ = True"

subsection \<open>References to a product that is gone\<close>

text \<open>
  The snapshot without the line items and stock-outs that refer to \<open>pid\<close>, and the
  condition that the quantities of those references are finite.
\<close>

definition drop_item_references :: "string \<Rightarrow> Sale \<Rightarrow> Sale" where
  "drop_item_references pid s =
     s\<lparr>s_items := map_option (filter (\<lambda>item. i_productId item \<noteq> pid)) (s_items s)\<rparr>"

definition drop_references :: "string \<Rightarrow> State \<Rightarrow> State" where
  "drop_references pid st =
     st\<lparr>sales := map (drop_item_references pid) (sales st),
        stockOuts := filter (\<lambda>so. so_productId so \<noteq> pid) (stockOuts st)\<rparr>"

definition finite_references :: "string \<Rightarrow> State \<Rightarrow> bool" where
  "finite_references pid st \<longleftrightarrow>
     (\<forall>so \<in> set (stockOuts st).
        so_productId so = pid \<longrightarrow> finite_num (ToNumber (so_quantity so))) \<and>
     (\<forall>s \<in> set (sales st). \<forall>item \<in> set (items_of s).
        i_productId item = pid \<longrightarrow> finite_num (num_or_0 (ToNumber (i_quantity item))))"

subsection \<open>Concrete snapshots\<close>

text \<open>
  The scenario of the specification: one product (price 100, cost 60, stock 10), one sale
  of total 100 with one item of quantity 1, one stock-out of quantity 2 with reason
  \<^verbatim>\<open>Sale\<close> on that product, no expenses.
\<close>

definition scenario_product :: Product where
  "scenario_product =
     \<lparr> p_id = ''p1'', p_name = Str ''Widget'', p_price = Num (Fin 100), p_cost = Num (Fin 60),
       p_stock = Num (Fin 10), p_minStock = Num (Fin 5),
       p_lastUpdated = Str ''2024-01-01T00:00:00.000Z'', p_rest = [] \<rparr>"

definition scenario :: State where
  "scenario =
     \<lparr> products = [scenario_product],
       sales = [\<lparr> s_items = Some [\<lparr> i_productId = ''p1'', i_quantity = Num (Fin 1), i_rest = [] \<rparr>],
                 s_total = Num (Fin 100), s_rest = [] \<rparr>],
       expenses = [],
       stockOuts = [\<lparr> so_productId = ''p1'', so_quantity = Num (Fin 2), so_reason = ''Sale'',
                     so_rest = [] \<rparr>],
       shopSettings = DEFAULT_SETTINGS ''2024-01-01T00:00:00.000Z'' \<rparr>"

text \<open>A stock-out of 25 units of the scenario's product, and one of a product that does not exist.\<close>

definition damage_25 :: StockOutType where
  "damage_25 =
     \<lparr> so_productId = ''p1'', so_quantity = Num (Fin 25), so_reason = ''Damage'', so_rest = [] \<rparr>"

definition ghost_stockOut :: StockOutType where
  "ghost_stockOut =
     \<lparr> so_productId = ''ghost'', so_quantity = Num (Fin 3), so_reason = ''Sale'', so_rest = [] \<rparr>"

text \<open>A sale whose total is absent, and a stock-out sold whose quantity is absent.\<close>

definition sale_without_total :: Sale where
  "sale_without_total = \<lparr> s_items = None, s_total = Undefined, s_rest = [] \<rparr>"

definition stockOut_without_quantity :: StockOutType where
  "stockOut_without_quantity =
     \<lparr> so_productId = ''p1'', so_quantity = Undefined, so_reason = ''Sale'', so_rest = [] \<rparr>"

text \<open>
  A storage that holds one text under one key, and \<^verbatim>\<open>JSON.parse\<close> on the three texts the
  examples store (it is applied to no other text).
\<close>

definition storage_with :: "string \<Rightarrow> string \<Rightarrow> getItem" where
  "storage_with key text k = (if k = key then Inr (Some text) else Inr None)"

definition parse_fragment :: JSON_parse where
  "parse_fragment s =
     (if s = ''null'' then Inr Null
      else if s = ''{}'' then Inr (Obj [])
      else if s = ''[]'' then Inr (Arr [])
      else Inl SyntaxError)"

section \<open>Numbers and coercions\<close>

lemma num_or_0_coerce: "num_or_0 (ToNumber v) = coerce_zero v"
  by (cases "ToNumber v") (simp_all add: num_or_0_def coerce_zero_def)

lemma coerce_zero_numeric: "ToNumber v \<noteq> NaN \<Longrightarrow> coerce_zero v = ToNumber v"
  by (cases "ToNumber v") (simp_all add: coerce_zero_def)

lemma coerce_zero_falsy: "\<not> truthy v \<Longrightarrow> coerce_zero v = Fin 0"
  by (cases v) (auto simp: coerce_zero_def StringToNumber_def trim_def)

lemma Math_max_clamp: "js_lt a b \<Longrightarrow> Math_max (Fin 0) (a - b) = Fin 0"
  by (cases a; cases b) (auto simp: Math_max_def minus_jsnum_def)

lemma Math_max_nonneg: "a \<noteq> NaN \<Longrightarrow> js_le (Fin 0) (Math_max (Fin 0) a)"
  by (cases a) (auto simp: Math_max_def)

lemma minus_not_NaN: "js_le (Fin 0) a \<Longrightarrow> finite_num b \<Longrightarrow> a - b \<noteq> NaN"
  by (cases a; cases b) (auto simp: finite_num_def minus_jsnum_def)

lemma zero_times_finite:
  "finite_num n \<Longrightarrow> Fin 0 * n = 0" "finite_num n \<Longrightarrow> n * Fin 0 = 0"
  by (cases n; simp add: finite_num_def zero_jsnum_def)+

section \<open>The reductions as sums\<close>

lemma foldl_add_sum_list:
  fixes f :: "'a \<Rightarrow> jsnum"
  shows "foldl (\<lambda>acc x. acc + f x) a xs = a + sum_list (map f xs)"
  by (induction xs arbitrary: a) (simp_all add: add.assoc)

lemma sum_list_map_eq:
  fixes f g :: "'a \<Rightarrow> jsnum"
  assumes "\<And>x. x \<in> set xs \<Longrightarrow> f x = g x"
  shows "sum_list (map f xs) = sum_list (map g xs)"
  using assms by (induction xs) simp_all

lemma sum_list_filter_zero:
  fixes f :: "'a \<Rightarrow> jsnum"
  assumes "\<And>x. x \<in> set xs \<Longrightarrow> \<not> P x \<Longrightarrow> f x = 0"
  shows "sum_list (map f (filter P xs)) = sum_list (map f xs)"
  using assms by (induction xs) simp_all

lemma baseRevenue_sum:
  "baseRevenue st = sum_list (map (\<lambda>s. num_or_0 (ToNumber (s_total s))) (sales st))"
  by (simp add: baseRevenue_def foldl_add_sum_list)

lemma stockOutRevenue_sum:
  "stockOutRevenue st =
     sum_list (map (\<lambda>so. ToNumber (so_quantity so) *
                          price_or_0 (find_product (products st) (so_productId so)))
                 (sale_stockOuts st))"
  by (simp add: stockOutRevenue_def foldl_add_sum_list)

lemma totalExpenses_sum:
  "totalExpenses_of st = sum_list (map (\<lambda>e. num_or_0 (ToNumber (e_amount e))) (expenses st))"
  by (simp add: totalExpenses_of_def foldl_add_sum_list)

lemma saleCogs_sum:
  "saleCogs ps s =
     sum_list (map (\<lambda>item. item_cost (find_product ps (i_productId item)) *
                            num_or_0 (ToNumber (i_quantity item)))
                 (items_of s))"
  by (simp add: saleCogs_def foldl_add_sum_list)

lemma salesProfit_sum:
  "salesProfit st =
     sum_list (map (\<lambda>s. ToNumber (s_total s) - saleCogs (products st) s) (sales st))"
  by (simp add: salesProfit_def foldl_add_sum_list)

lemma stockOutProfit_sum:
  "stockOutProfit st = sum_list (map (stockOut_unit_profit (products st)) (sale_stockOuts st))"
proof -
  have "(\<lambda>acc so. case find_product (products st) (so_productId so) of
                     None \<Rightarrow> acc
                   | Some p \<Rightarrow>
                       let profitPerUnit = ToNumber (p_price p) - ToNumber (p_cost p)
                       in acc + profitPerUnit * ToNumber (so_quantity so))
        = (\<lambda>acc so. acc + stockOut_unit_profit (products st) so)"
    by (intro ext) (simp add: stockOut_unit_profit_def split: option.split)
  then show ?thesis
    by (simp add: stockOutProfit_def foldl_add_sum_list)
qed

section \<open>Looking a product up\<close>

lemma find_product_None_iff: "find_product ps pid = None \<longleftrightarrow> pid \<notin> p_id ` set ps"
  by (auto simp: find_product_def find_None_iff)

lemma find_product_SomeD: "find_product ps pid = Some p \<Longrightarrow> p \<in> set ps"
  by (auto simp: find_product_def find_Some_iff)

lemma find_product_deleted: "find_product (filter (\<lambda>p. p_id p \<noteq> pid) ps) pid = None"
  by (auto simp: find_product_None_iff)

lemma item_cost_None: "item_cost None = Fin 0"
  by (simp add: item_cost_def)

lemma price_or_0_None: "price_or_0 None = Fin 0"
  by (simp add: price_or_0_def val_or_0_def)

section \<open>The metrics and the specification's formulas\<close>

lemma price_or_0_spec:
  assumes "\<forall>p \<in> set ps. truthy (p_price p) \<longrightarrow> numeric (p_price p)"
  shows "price_or_0 (find_product ps pid) = spec_matching_price ps pid"
proof (cases "find_product ps pid")
  case None
  then show ?thesis by (simp add: price_or_0_None spec_matching_price_def zero_jsnum_def)
next
  case (Some p)
  then have "truthy (p_price p) \<longrightarrow> numeric (p_price p)"
    using assms find_product_SomeD by blast
  then show ?thesis
    using Some
    by (auto simp: price_or_0_def spec_matching_price_def val_or_0_def numeric_def
        coerce_zero_numeric coerce_zero_falsy)
qed

lemma item_cost_spec: "item_cost (find_product ps pid) = spec_matching_cost ps pid"
  by (simp add: item_cost_def spec_matching_cost_def num_or_0_coerce zero_jsnum_def
      split: option.split)

lemma saleCogs_spec:
  "saleCogs ps s =
     sum_list (map (\<lambda>item. spec_matching_cost ps (i_productId item) * coerce_zero (i_quantity item))
                 (items_of s))"
  by (simp add: saleCogs_sum item_cost_spec num_or_0_coerce)

lemma baseRevenue_spec: "baseRevenue st = spec_directSalesRevenue st"
  by (simp add: baseRevenue_sum spec_directSalesRevenue_def num_or_0_coerce)

lemma totalExpenses_spec: "totalExpenses_of st = spec_totalExpenses st"
  by (simp add: totalExpenses_sum spec_totalExpenses_def num_or_0_coerce)

lemma stockOutRevenue_spec:
  assumes "revenue_fields_numeric st"
  shows "stockOutRevenue st = spec_stockOutSalesRevenue st"
proof -
  have "ToNumber (so_quantity so) * price_or_0 (find_product (products st) (so_productId so))
        = coerce_zero (so_quantity so) * spec_matching_price (products st) (so_productId so)"
    if "so \<in> set (sale_stockOuts st)" for so
    using that assms
    by (simp add: revenue_fields_numeric_def price_or_0_spec numeric_def coerce_zero_numeric)
  then have "sum_list (map (\<lambda>so. ToNumber (so_quantity so) *
                     price_or_0 (find_product (products st) (so_productId so)))
               (sale_stockOuts st))
             = sum_list (map (\<lambda>so. coerce_zero (so_quantity so) *
                     spec_matching_price (products st) (so_productId so))
               (sale_stockOuts st))"
    by (rule sum_list_map_eq)
  then show ?thesis
    by (simp add: stockOutRevenue_sum spec_stockOutSalesRevenue_def sale_stockOuts_def)
qed

lemma salesProfit_spec:
  assumes "\<forall>s \<in> set (sales st). numeric (s_total s)"
  shows "salesProfit st = spec_salesProfit st"
  unfolding salesProfit_sum spec_salesProfit_def
  by (rule sum_list_map_eq) (use assms in \<open>simp add: saleCogs_spec numeric_def coerce_zero_numeric\<close>)

lemma stockOutProfit_spec:
  assumes "\<forall>so \<in> set (sale_stockOuts st). numeric (so_quantity so)"
    and "\<forall>p \<in> set (products st). numeric (p_price p) \<and> numeric (p_cost p)"
  shows "stockOutProfit st = spec_stockOutProfit st"
proof -
  have "stockOut_unit_profit (products st) so
        = (case find_product (products st) (so_productId so) of
             None \<Rightarrow> 0
           | Some p \<Rightarrow> (coerce_zero (p_price p) - coerce_zero (p_cost p)) *
                       coerce_zero (so_quantity so))"
    if "so \<in> set (sale_stockOuts st)" for so
    using that assms
    by (auto simp: stockOut_unit_profit_def numeric_def coerce_zero_numeric
        dest!: find_product_SomeD split: option.split)
  then have "sum_list (map (stockOut_unit_profit (products st)) (sale_stockOuts st))
             = sum_list (map (\<lambda>so. case find_product (products st) (so_productId so) of
                                      None \<Rightarrow> 0
                                    | Some p \<Rightarrow> (coerce_zero (p_price p) - coerce_zero (p_cost p)) *
                                                coerce_zero (so_quantity so))
                          (sale_stockOuts st))"
    by (rule sum_list_map_eq)
  then show ?thesis
    by (simp add: stockOutProfit_sum spec_stockOutProfit_def sale_stockOuts_def)
qed

lemma scenario_stats:
  "totalRevenue (stats scenario) = Fin 300" "totalProfit (stats scenario) = Fin 120"
  by (simp_all add: stats_def scenario_def scenario_product_def baseRevenue_def
      stockOutRevenue_def sale_stockOuts_def find_product_def price_or_0_def val_or_0_def
      num_or_0_def zero_jsnum_def salesProfit_def saleCogs_def items_of_def item_cost_def
      stockOutProfit_def totalExpenses_of_def minus_jsnum_def)

lemma scenario_ghost_stats:
  "totalRevenue (stats (scenario\<lparr>stockOuts := stockOuts scenario @ [ghost_stockOut]\<rparr>)) = Fin 300"
  "totalProfit (stats (scenario\<lparr>stockOuts := stockOuts scenario @ [ghost_stockOut]\<rparr>)) = Fin 120"
  by (simp_all add: stats_def scenario_def scenario_product_def ghost_stockOut_def baseRevenue_def
      stockOutRevenue_def sale_stockOuts_def find_product_def price_or_0_def val_or_0_def
      num_or_0_def zero_jsnum_def salesProfit_def saleCogs_def items_of_def item_cost_def
      stockOutProfit_def totalExpenses_of_def minus_jsnum_def)

lemma scenario_ghost_numeric:
  "revenue_fields_numeric (scenario\<lparr>stockOuts := stockOuts scenario @ [ghost_stockOut]\<rparr>)"
  "profit_fields_numeric (scenario\<lparr>stockOuts := stockOuts scenario @ [ghost_stockOut]\<rparr>)"
  by (simp_all add: revenue_fields_numeric_def profit_fields_numeric_def scenario_def
      scenario_product_def ghost_stockOut_def sale_stockOuts_def numeric_def)

text \<open>
  Where the quantity of each stock-out sold and each price that is present reads as a
  number, the total revenue is the specification's sum; a sale's total may be any value.
\<close>

lemma totalRevenue_formula:
  assumes "revenue_fields_numeric st"
  shows "totalRevenue (stats st) = spec_totalRevenue st \<and> totalRevenue (stats scenario) = Fin 300"
proof
  show "totalRevenue (stats st) = spec_totalRevenue st"
    using assms
    by (simp add: stats_def baseRevenue_spec stockOutRevenue_spec spec_totalRevenue_def)
  show "totalRevenue (stats scenario) = Fin 300"
    by (rule scenario_stats)
qed

text \<open>The scenario with one more stock-out sold, of a product that does not exist.\<close>

lemma totalRevenue_formula_example:
  "revenue_fields_numeric (scenario\<lparr>stockOuts := stockOuts scenario @ [ghost_stockOut]\<rparr>) \<and>
   totalRevenue (stats (scenario\<lparr>stockOuts := stockOuts scenario @ [ghost_stockOut]\<rparr>)) = Fin 300 \<and>
   spec_totalRevenue (scenario\<lparr>stockOuts := stockOuts scenario @ [ghost_stockOut]\<rparr>) = Fin 300"
  using totalRevenue_formula [OF scenario_ghost_numeric(1)] scenario_ghost_numeric(1)
    scenario_ghost_stats(1)
  by auto

text \<open>
  Where each sale's total, the quantity of each stock-out sold and each product's price
  and cost read as numbers, the total profit is the specification's formula; item
  quantities and expense amounts may be any value.
\<close>

lemma totalProfit_formula:
  assumes "profit_fields_numeric st"
  shows "totalProfit (stats st) = spec_totalProfit st \<and> totalProfit (stats scenario) = Fin 120"
proof
  show "totalProfit (stats st) = spec_totalProfit st"
    using assms
    by (simp add: stats_def profit_fields_numeric_def salesProfit_spec stockOutProfit_spec
        totalExpenses_spec spec_totalProfit_def)
  show "totalProfit (stats scenario) = Fin 120"
    by (rule scenario_stats)
qed

lemma totalProfit_formula_example:
  "profit_fields_numeric (scenario\<lparr>stockOuts := stockOuts scenario @ [ghost_stockOut]\<rparr>) \<and>
   totalProfit (stats (scenario\<lparr>stockOuts := stockOuts scenario @ [ghost_stockOut]\<rparr>)) = Fin 120 \<and>
   spec_totalProfit (scenario\<lparr>stockOuts := stockOuts scenario @ [ghost_stockOut]\<rparr>) = Fin 120"
  using totalProfit_formula [OF scenario_ghost_numeric(2)] scenario_ghost_numeric(2)
    scenario_ghost_stats(2)
  by auto

text \<open>
  Claim C3. Total revenue is to be, for every snapshot, the sum of the totals of the sales
  plus, over the stock-outs with reason \<^verbatim>\<open>Sale\<close>, the quantity times the price of the
  matching product. In the scenario it is: both are 300. With one stock-out sold whose
  quantity is absent it is not: the specification's sum reads the quantity as zero and is
  0, while \<open>stats\<close> multiplies \<^verbatim>\<open>Number(undefined)\<close> by the price and gives \<^verbatim>\<open>NaN\<close>.
\<close>

theorem totalRevenue_absent_quantity:
  "totalRevenue (stats scenario) = Fin 300 \<and>
   spec_totalRevenue scenario = Fin 300 \<and>
   totalRevenue (stats (scenario\<lparr>sales := [], stockOuts := [stockOut_without_quantity]\<rparr>)) = NaN \<and>
   spec_totalRevenue (scenario\<lparr>sales := [], stockOuts := [stockOut_without_quantity]\<rparr>) = Fin 0"
  by (simp add: stats_def scenario_def scenario_product_def stockOut_without_quantity_def
      baseRevenue_def stockOutRevenue_def sale_stockOuts_def find_product_def price_or_0_def
      val_or_0_def num_or_0_def zero_jsnum_def spec_totalRevenue_def
      spec_directSalesRevenue_def spec_stockOutSalesRevenue_def spec_matching_price_def
      coerce_zero_def)

text \<open>
  Claim C4. Total profit is to be, for every snapshot, the profit of the sales (each total
  minus the cost of its items) plus the profit of the stock-outs with reason \<^verbatim>\<open>Sale\<close>
  minus the expenses. In the scenario it is: both are 120. With one sale whose total is
  absent it is not: the specification's formula reads the total as zero and is 0, while
  \<open>stats\<close> subtracts the cost of the items from \<^verbatim>\<open>Number(undefined)\<close> and gives \<^verbatim>\<open>NaN\<close>.
\<close>

theorem totalProfit_absent_total:
  "totalProfit (stats scenario) = Fin 120 \<and>
   spec_totalProfit scenario = Fin 120 \<and>
   totalProfit (stats (scenario\<lparr>sales := [sale_without_total], stockOuts := []\<rparr>)) = NaN \<and>
   spec_totalProfit (scenario\<lparr>sales := [sale_without_total], stockOuts := []\<rparr>) = Fin 0"
  by (simp add: stats_def scenario_def scenario_product_def sale_without_total_def
      find_product_def num_or_0_def zero_jsnum_def salesProfit_def saleCogs_def items_of_def
      item_cost_def stockOutProfit_def sale_stockOuts_def totalExpenses_of_def minus_jsnum_def
      spec_totalProfit_def spec_salesProfit_def spec_stockOutProfit_def spec_totalExpenses_def
      spec_matching_cost_def coerce_zero_def)

text \<open>
  Claim C9. The low-stock count is the number of products whose stock is at most their
  minimum stock, both read as zero when they are not numbers. The bound is inclusive: a
  product with stock 5 and minimum 5 is counted, one with stock 6 and minimum 5 is not.
\<close>

theorem lowStockCount_boundary:
  "lowStockCount (stats st) = card {i. i < length (products st) \<and> spec_low_stock (products st ! i)} \<and>
   lowStockCount (stats (st\<lparr>products := [p\<lparr>p_stock := Num (Fin 5), p_minStock := Num (Fin 5)\<rparr>]\<rparr>)) = 1 \<and>
   lowStockCount (stats (st\<lparr>products := [p\<lparr>p_stock := Num (Fin 6), p_minStock := Num (Fin 5)\<rparr>]\<rparr>)) = 0"
proof -
  have "is_low_stock = spec_low_stock"
    by (intro ext) (simp add: is_low_stock_def spec_low_stock_def num_or_0_coerce)
  then show ?thesis
    by (simp add: stats_def length_filter_conv_card spec_low_stock_def coerce_zero_def)
qed

text \<open>
  Claim C2. Every metric is to read a value that is not a number as zero. \<open>stats\<close> does so
  for the revenue of the sales, but not for their profit, nor for the quantity of a
  stock-out: with one sale whose total is absent the total revenue is 0 and the total
  profit is \<^verbatim>\<open>NaN\<close>; with one stock-out sold whose quantity is absent the total revenue
  is \<^verbatim>\<open>NaN\<close>.
\<close>

theorem stats_absent_field_is_NaN:
  "totalRevenue (stats (scenario\<lparr>sales := [sale_without_total], stockOuts := []\<rparr>)) = Fin 0 \<and>
   totalProfit (stats (scenario\<lparr>sales := [sale_without_total], stockOuts := []\<rparr>)) = NaN \<and>
   totalRevenue (stats (scenario\<lparr>sales := [], stockOuts := [stockOut_without_quantity]\<rparr>)) = NaN"
  by (simp add: stats_def scenario_def scenario_product_def sale_without_total_def
      stockOut_without_quantity_def baseRevenue_def stockOutRevenue_def sale_stockOuts_def
      find_product_def price_or_0_def val_or_0_def num_or_0_def zero_jsnum_def salesProfit_def
      saleCogs_def items_of_def item_cost_def stockOutProfit_def totalExpenses_of_def
      minus_jsnum_def)

section \<open>The handlers\<close>

text \<open>
  Claim C6. When a stock-out is recorded for a product with a quantity greater than the
  product's stock, the product's stock becomes exactly zero. (That the stock was
  non-negative before is not needed.)
\<close>

theorem recordStockOut_over_decrement:
  assumes "i < length (products st)"
    and "p_id (products st ! i) = so_productId record"
    and "js_lt (ToNumber (p_stock (products st ! i))) (ToNumber (so_quantity record))"
  shows "p_stock (products (handleRecordStockOut now record st) ! i) = Num (Fin 0)"
  using assms by (simp add: handleRecordStockOut_def decrement_stock_def Math_max_clamp)

theorem recordStockOut_over_decrement_witness:
  "p_stock (products scenario ! 0) = Num (Fin 10) \<and>
   so_quantity damage_25 = Num (Fin 25) \<and>
   p_stock (products (handleRecordStockOut ''2024-02-01T00:00:00.000Z'' damage_25 scenario) ! 0)
     = Num (Fin 0)"
  using recordStockOut_over_decrement [of 0 scenario damage_25 "''2024-02-01T00:00:00.000Z''"]
  by (simp add: scenario_def scenario_product_def damage_25_def)

text \<open>
  Claim C7. When the stock-out's product identifier matches no product, the record is
  appended to the stock-outs and nothing else in the state changes; in particular the
  products are unchanged.
\<close>

theorem recordStockOut_dangling:
  assumes "\<forall>p \<in> set (products st). p_id p \<noteq> so_productId record"
  shows "handleRecordStockOut now record st = st\<lparr>stockOuts := stockOuts st @ [record]\<rparr>"
proof -
  have "map (decrement_stock now record) (products st) = products st"
    using assms by (simp add: decrement_stock_def map_idI)
  then show ?thesis
    by (simp add: handleRecordStockOut_def)
qed

theorem recordStockOut_dangling_witness:
  "handleRecordStockOut ''2024-02-01T00:00:00.000Z'' ghost_stockOut scenario
     = scenario\<lparr>stockOuts := stockOuts scenario @ [ghost_stockOut]\<rparr> \<and>
   products (handleRecordStockOut ''2024-02-01T00:00:00.000Z'' ghost_stockOut scenario)
     = [scenario_product]"
  using recordStockOut_dangling [of scenario ghost_stockOut "''2024-02-01T00:00:00.000Z''"]
  by (simp add: scenario_def scenario_product_def ghost_stockOut_def)

text \<open>
  Claim C10. Recording a stock-out leaves the sales, the expenses and the settings as they
  were and keeps the number and order of the products. A product with another identifier
  is unchanged. A product with the record's identifier keeps its identifier, name, price,
  cost, minimum stock and remaining properties; its time stamp becomes the current time
  and its stock the clamped difference.
\<close>

theorem recordStockOut_frame:
  "sales (handleRecordStockOut now record st) = sales st \<and>
   expenses (handleRecordStockOut now record st) = expenses st \<and>
   shopSettings (handleRecordStockOut now record st) = shopSettings st \<and>
   length (products (handleRecordStockOut now record st)) = length (products st) \<and>
   (\<forall>i < length (products st).
      (p_id (products st ! i) \<noteq> so_productId record \<longrightarrow>
         products (handleRecordStockOut now record st) ! i = products st ! i) \<and>
      (p_id (products st ! i) = so_productId record \<longrightarrow>
         p_id (products (handleRecordStockOut now record st) ! i) = p_id (products st ! i) \<and>
         p_name (products (handleRecordStockOut now record st) ! i) = p_name (products st ! i) \<and>
         p_price (products (handleRecordStockOut now record st) ! i) = p_price (products st ! i) \<and>
         p_cost (products (handleRecordStockOut now record st) ! i) = p_cost (products st ! i) \<and>
         p_minStock (products (handleRecordStockOut now record st) ! i)
           = p_minStock (products st ! i) \<and>
         p_rest (products (handleRecordStockOut now record st) ! i) = p_rest (products st ! i) \<and>
         p_lastUpdated (products (handleRecordStockOut now record st) ! i) = Str now \<and>
         p_stock (products (handleRecordStockOut now record st) ! i)
           = Num (Math_max (Fin 0)
                   (ToNumber (p_stock (products st ! i)) - ToNumber (so_quantity record)))))"
  by (simp add: handleRecordStockOut_def decrement_stock_def)

text \<open>
  Two products, the second with another identifier: a stock-out of 25 units of the first
  changes the first product's stock and time stamp only.
\<close>

theorem recordStockOut_frame_witness:
  "products (handleRecordStockOut ''2024-02-01T00:00:00.000Z'' damage_25
      (scenario\<lparr>products := [scenario_product, scenario_product\<lparr>p_id := ''p2''\<rparr>]\<rparr>))
     = [scenario_product\<lparr>p_stock := Num (Fin 0), p_lastUpdated := Str ''2024-02-01T00:00:00.000Z''\<rparr>,
        scenario_product\<lparr>p_id := ''p2''\<rparr>] \<and>
   sales (handleRecordStockOut ''2024-02-01T00:00:00.000Z'' damage_25
      (scenario\<lparr>products := [scenario_product, scenario_product\<lparr>p_id := ''p2''\<rparr>]\<rparr>))
     = sales scenario"
  using recordStockOut_frame [of "''2024-02-01T00:00:00.000Z''" damage_25
      "scenario\<lparr>products := [scenario_product, scenario_product\<lparr>p_id := ''p2''\<rparr>]\<rparr>"]
  by (simp add: handleRecordStockOut_def decrement_stock_def scenario_def scenario_product_def
      damage_25_def Math_max_def minus_jsnum_def)

section \<open>Stock never below zero\<close>

lemma decrement_stock_nonneg:
  assumes "stock_nonneg p" and "finite_num (ToNumber (so_quantity r))"
  shows "stock_nonneg (decrement_stock now r p)"
  using assms by (simp add: decrement_stock_def stock_nonneg_def Math_max_nonneg minus_not_NaN)

lemma apply_mutation_nonneg:
  assumes "all_stock_nonneg st" and "admissible m"
  shows "all_stock_nonneg (apply_mutation st m)"
proof (cases m)
  case (AddProduct p)
  with assms show ?thesis by (simp add: all_stock_nonneg_def handleAddProduct_def)
next
  case (UpdateProduct p)
  with assms show ?thesis
    by (auto simp: all_stock_nonneg_def handleUpdateProduct_def list_all_iff)
next
  case (DeleteProduct pid)
  with assms show ?thesis
    by (simp add: all_stock_nonneg_def handleDeleteProduct_def list_all_iff)
next
  case (AddExpense e)
  with assms show ?thesis by (simp add: all_stock_nonneg_def handleAddExpense_def)
next
  case (RecordStockOut now r)
  with assms show ?thesis
    by (simp add: all_stock_nonneg_def handleRecordStockOut_def list_all_iff
        decrement_stock_nonneg)
next
  case (UpdateSettings s)
  with assms show ?thesis by (simp add: all_stock_nonneg_def handleUpdateSettings_def)
qed

lemma run_mutations_nonneg:
  "all_stock_nonneg st \<Longrightarrow> list_all admissible ms \<Longrightarrow> all_stock_nonneg (run_mutations st ms)"
  unfolding run_mutations_def
  by (induction ms arbitrary: st) (simp_all add: apply_mutation_nonneg)

text \<open>
  Why the quantity of a stock-out has to be a number for the stock to stay non-negative:
  \<^verbatim>\<open>Math.max(0, NaN)\<close> is \<^verbatim>\<open>NaN\<close>, and \<^verbatim>\<open>NaN >= 0\<close> is false.
\<close>

lemma recordStockOut_absent_quantity:
  "map p_stock (products (handleRecordStockOut now stockOut_without_quantity scenario))
     = [Num NaN] \<and>
   \<not> all_stock_nonneg (handleRecordStockOut now stockOut_without_quantity scenario)"
  by (simp add: handleRecordStockOut_def decrement_stock_def scenario_def scenario_product_def
      stockOut_without_quantity_def Math_max_def minus_jsnum_def all_stock_nonneg_def
      stock_nonneg_def)

text \<open>
  Claim C1, as stated, fails: \<open>handleAddProduct\<close> and \<open>handleUpdateProduct\<close> store the
  product they are given, whatever its stock. From the scenario, adding a product with
  stock \<open>-1\<close> gives a state with a negative stock.
\<close>

theorem add_product_negative_stock_counterexample:
  "all_stock_nonneg scenario \<and>
   \<not> all_stock_nonneg
       (run_mutations scenario
          [AddProduct (scenario_product\<lparr>p_id := ''p2'', p_stock := Num (Fin (- 1))\<rparr>)])"
  by (simp add: all_stock_nonneg_def scenario_def scenario_product_def stock_nonneg_def
      run_mutations_def handleAddProduct_def)

text \<open>
  Claim C1, amended. From a state in which every stock is non-negative, after every call
  of a run every stock is non-negative, provided each product given to AddProduct or
  UpdateProduct has a non-negative stock and each quantity given to RecordStockOut is a
  finite number.
\<close>

theorem stock_nonneg_after_every_call:
  assumes "all_stock_nonneg st" and "list_all admissible ms" and "k \<le> length ms"
  shows "all_stock_nonneg (run_mutations st (take k ms))"
proof -
  have "list_all admissible (take k ms)"
    using assms(2) by (auto simp: list_all_iff dest: in_set_takeD)
  with assms(1) show ?thesis by (rule run_mutations_nonneg)
qed

theorem stock_nonneg_after_every_call_witness:
  "all_stock_nonneg
     (run_mutations scenario
        (take 2 [RecordStockOut ''2024-02-01T00:00:00.000Z'' damage_25,
                 AddProduct (scenario_product\<lparr>p_id := ''p2'', p_stock := Num (Fin 0)\<rparr>),
                 DeleteProduct ''p1''])) \<and>
   map p_stock
     (products
        (run_mutations scenario
           (take 2 [RecordStockOut ''2024-02-01T00:00:00.000Z'' damage_25,
                    AddProduct (scenario_product\<lparr>p_id := ''p2'', p_stock := Num (Fin 0)\<rparr>),
                    DeleteProduct ''p1''])))
     = [Num (Fin 0), Num (Fin 0)]"
proof -
  have a: "all_stock_nonneg scenario"
    by (simp add: all_stock_nonneg_def scenario_def scenario_product_def stock_nonneg_def)
  have b: "list_all admissible
             [RecordStockOut ''2024-02-01T00:00:00.000Z'' damage_25,
              AddProduct (scenario_product\<lparr>p_id := ''p2'', p_stock := Num (Fin 0)\<rparr>),
              DeleteProduct ''p1'']"
    by (simp add: finite_num_def stock_nonneg_def damage_25_def)
  show ?thesis
    using stock_nonneg_after_every_call [OF a b, of 2]
    by (simp add: run_mutations_def handleRecordStockOut_def handleAddProduct_def
        decrement_stock_def scenario_def scenario_product_def damage_25_def Math_max_def
        minus_jsnum_def)
qed

section \<open>Deleting a product\<close>

lemma sale_stockOuts_drop:
  "sale_stockOuts (drop_references pid st)
     = filter (\<lambda>so. so_productId so \<noteq> pid) (sale_stockOuts st)"
  by (auto simp: sale_stockOuts_def drop_references_def intro: filter_cong)

lemma stockOutProfit_drop:
  assumes "find_product (products st) pid = None"
  shows "stockOutProfit (drop_references pid st) = stockOutProfit st"
proof -
  have ps: "products (drop_references pid st) = products st"
    by (simp add: drop_references_def)
  have "sum_list (map (stockOut_unit_profit (products st))
                   (filter (\<lambda>so. so_productId so \<noteq> pid) (sale_stockOuts st)))
        = sum_list (map (stockOut_unit_profit (products st)) (sale_stockOuts st))"
    by (rule sum_list_filter_zero) (use assms in \<open>simp add: stockOut_unit_profit_def\<close>)
  then show ?thesis
    by (simp add: stockOutProfit_sum sale_stockOuts_drop ps)
qed

lemma stockOutRevenue_drop:
  assumes "find_product (products st) pid = None" and "finite_references pid st"
  shows "stockOutRevenue (drop_references pid st) = stockOutRevenue st"
proof -
  have ps: "products (drop_references pid st) = products st"
    by (simp add: drop_references_def)
  let ?f = "\<lambda>so. ToNumber (so_quantity so) *
                   price_or_0 (find_product (products st) (so_productId so))"
  have "?f so = 0"
    if "so \<in> set (sale_stockOuts st)" and "\<not> so_productId so \<noteq> pid" for so
  proof -
    from that have "finite_num (ToNumber (so_quantity so))"
      using assms(2) by (simp add: finite_references_def sale_stockOuts_def)
    with that assms(1) show ?thesis
      by (simp add: price_or_0_None zero_times_finite)
  qed
  then have "sum_list (map ?f (filter (\<lambda>so. so_productId so \<noteq> pid) (sale_stockOuts st)))
             = sum_list (map ?f (sale_stockOuts st))"
    by (rule sum_list_filter_zero)
  then show ?thesis
    by (simp add: stockOutRevenue_sum sale_stockOuts_drop ps)
qed

lemma saleCogs_drop:
  assumes "find_product ps pid = None"
    and "\<forall>item \<in> set (items_of s).
           i_productId item = pid \<longrightarrow> finite_num (num_or_0 (ToNumber (i_quantity item)))"
  shows "saleCogs ps (drop_item_references pid s) = saleCogs ps s"
proof (cases "s_items s")
  case None
  then show ?thesis by (simp add: saleCogs_sum drop_item_references_def items_of_def)
next
  case (Some its)
  let ?f = "\<lambda>item. item_cost (find_product ps (i_productId item)) *
                     num_or_0 (ToNumber (i_quantity item))"
  have "?f item = 0" if "item \<in> set its" and "\<not> i_productId item \<noteq> pid" for item
    using that assms Some by (simp add: items_of_def item_cost_None zero_times_finite)
  then have "sum_list (map ?f (filter (\<lambda>item. i_productId item \<noteq> pid) its))
             = sum_list (map ?f its)"
    by (rule sum_list_filter_zero)
  with Some show ?thesis
    by (simp add: saleCogs_sum drop_item_references_def items_of_def)
qed

lemma salesProfit_drop:
  assumes "find_product (products st) pid = None" and "finite_references pid st"
  shows "salesProfit (drop_references pid st) = salesProfit st"
proof -
  have "ToNumber (s_total (drop_item_references pid s))
          - saleCogs (products st) (drop_item_references pid s)
        = ToNumber (s_total s) - saleCogs (products st) s" if "s \<in> set (sales st)" for s
  proof -
    have "saleCogs (products st) (drop_item_references pid s) = saleCogs (products st) s"
      using assms that by (intro saleCogs_drop) (simp_all add: finite_references_def)
    then show ?thesis by (simp add: drop_item_references_def)
  qed
  then show ?thesis
    by (simp add: salesProfit_sum drop_references_def comp_def cong: map_cong)
qed

lemma baseRevenue_drop: "baseRevenue (drop_references pid st) = baseRevenue st"
  by (simp add: baseRevenue_sum drop_references_def comp_def drop_item_references_def)

lemma totalExpenses_drop: "totalExpenses_of (drop_references pid st) = totalExpenses_of st"
  by (simp add: totalExpenses_sum drop_references_def)

text \<open>
  Deleting a product removes the products with that identifier, keeps the others in
  order, and leaves sales, expenses, stock-outs and settings unchanged. In the new
  snapshot the identifier is found nowhere: the cost of a line item that refers to it is
  0, the price of a stock-out that refers to it is 0, and such a stock-out is skipped
  by the stock-out profit. When the quantities of those references are finite, total
  revenue and total profit are what they are without the references.
\<close>

lemma deleteProduct_frame_and_references:
  "products (handleDeleteProduct pid st) = filter (\<lambda>p. p_id p \<noteq> pid) (products st) \<and>
   sales (handleDeleteProduct pid st) = sales st \<and>
   expenses (handleDeleteProduct pid st) = expenses st \<and>
   stockOuts (handleDeleteProduct pid st) = stockOuts st \<and>
   shopSettings (handleDeleteProduct pid st) = shopSettings st \<and>
   find_product (products (handleDeleteProduct pid st)) pid = None \<and>
   item_cost (find_product (products (handleDeleteProduct pid st)) pid) = Fin 0 \<and>
   price_or_0 (find_product (products (handleDeleteProduct pid st)) pid) = Fin 0 \<and>
   stockOutProfit (drop_references pid (handleDeleteProduct pid st))
     = stockOutProfit (handleDeleteProduct pid st) \<and>
   (finite_references pid st \<longrightarrow>
      totalRevenue (stats (drop_references pid (handleDeleteProduct pid st)))
        = totalRevenue (stats (handleDeleteProduct pid st)) \<and>
      totalProfit (stats (drop_references pid (handleDeleteProduct pid st)))
        = totalProfit (stats (handleDeleteProduct pid st)))"
proof -
  let ?st' = "handleDeleteProduct pid st"
  have none: "find_product (products ?st') pid = None"
    by (simp add: handleDeleteProduct_def find_product_deleted)
  have fr: "finite_references pid ?st'" if "finite_references pid st"
    using that by (simp add: finite_references_def handleDeleteProduct_def)
  have frame: "products ?st' = filter (\<lambda>p. p_id p \<noteq> pid) (products st)"
    "sales ?st' = sales st" "expenses ?st' = expenses st" "stockOuts ?st' = stockOuts st"
    "shopSettings ?st' = shopSettings st"
    by (simp_all add: handleDeleteProduct_def)
  have metrics: "totalRevenue (stats (drop_references pid ?st')) = totalRevenue (stats ?st')"
    "totalProfit (stats (drop_references pid ?st')) = totalProfit (stats ?st')"
    if "finite_references pid st"
    using fr [OF that] none
    by (simp_all add: stats_def baseRevenue_drop stockOutRevenue_drop salesProfit_drop
        stockOutProfit_drop totalExpenses_drop)
  show ?thesis
    using none frame metrics stockOutProfit_drop [OF none]
    by (simp add: item_cost_None price_or_0_None)
qed

text \<open>
  Deleting the scenario's product: the sale still counts its total of 100, its item costs
  nothing, and the stock-out adds nothing to revenue or profit.
\<close>

lemma deleteProduct_frame_and_references_example:
  "finite_references ''p1'' scenario \<and>
   products (handleDeleteProduct ''p1'' scenario) = [] \<and>
   totalRevenue (stats (handleDeleteProduct ''p1'' scenario)) = Fin 100 \<and>
   totalProfit (stats (handleDeleteProduct ''p1'' scenario)) = Fin 100 \<and>
   totalRevenue (stats (drop_references ''p1'' (handleDeleteProduct ''p1'' scenario))) = Fin 100 \<and>
   totalProfit (stats (drop_references ''p1'' (handleDeleteProduct ''p1'' scenario))) = Fin 100"
proof -
  have f: "finite_references ''p1'' scenario"
    by (simp add: finite_references_def scenario_def items_of_def finite_num_def num_or_0_def)
  have r: "totalRevenue (stats (handleDeleteProduct ''p1'' scenario)) = Fin 100"
    "totalProfit (stats (handleDeleteProduct ''p1'' scenario)) = Fin 100"
    by (simp_all add: handleDeleteProduct_def stats_def scenario_def scenario_product_def
        baseRevenue_def stockOutRevenue_def sale_stockOuts_def find_product_def price_or_0_def
        val_or_0_def num_or_0_def zero_jsnum_def salesProfit_def saleCogs_def items_of_def
        item_cost_def stockOutProfit_def totalExpenses_of_def minus_jsnum_def)
  show ?thesis
    using deleteProduct_frame_and_references [of "''p1''" scenario] f r
    by (simp add: scenario_def scenario_product_def)
qed

text \<open>
  Claim C8. After a product is deleted, a stock-out that still refers to it is to add
  nothing to revenue and profit. The deletion removes the product and leaves the other
  stores as they were, and the stock-out profit skips the stock-out. The revenue does
  not: it multiplies the stock-out's quantity by the price 0 of the missing product, and
  when the quantity is absent, or is \<^verbatim>\<open>NaN\<close>, the product is \<^verbatim>\<open>NaN\<close> and so is the total
  revenue, where the snapshot without the stock-out has total revenue 0.
\<close>

theorem deleteProduct_absent_quantity:
  "products (handleDeleteProduct ''p1''
      (scenario\<lparr>sales := [], stockOuts := [stockOut_without_quantity]\<rparr>)) = [] \<and>
   stockOuts (handleDeleteProduct ''p1''
      (scenario\<lparr>sales := [], stockOuts := [stockOut_without_quantity]\<rparr>))
     = [stockOut_without_quantity] \<and>
   totalProfit (stats (handleDeleteProduct ''p1''
      (scenario\<lparr>sales := [], stockOuts := [stockOut_without_quantity]\<rparr>))) = Fin 0 \<and>
   totalRevenue (stats (handleDeleteProduct ''p1''
      (scenario\<lparr>sales := [], stockOuts := [stockOut_without_quantity]\<rparr>))) = NaN \<and>
   totalRevenue (stats (handleDeleteProduct ''p1''
      (scenario\<lparr>sales := [],
                stockOuts := [stockOut_without_quantity\<lparr>so_quantity := Num NaN\<rparr>]\<rparr>))) = NaN \<and>
   totalRevenue (stats (handleDeleteProduct ''p1''
      (scenario\<lparr>sales := [], stockOuts := []\<rparr>))) = Fin 0"
  by (simp add: handleDeleteProduct_def stats_def scenario_def scenario_product_def
      stockOut_without_quantity_def baseRevenue_def stockOutRevenue_def sale_stockOuts_def
      find_product_def price_or_0_def val_or_0_def num_or_0_def zero_jsnum_def salesProfit_def
      stockOutProfit_def totalExpenses_of_def minus_jsnum_def)

section \<open>The loaders\<close>

text \<open>
  A collection initialiser returns a value in every case: the parsed value when the key
  holds a non-empty text that parses to an array, its default otherwise.
\<close>

lemma array_initializer_result:
  "array_initializer key dflt parse get =
     Inr (case get key of
            Inr (Some saved) \<Rightarrow>
              (if saved = [] then dflt
               else (case parse saved of
                       Inr parsed \<Rightarrow> if isArray parsed then parsed else dflt
                     | Inl e \<Rightarrow> dflt))
          | _ \<Rightarrow> dflt)"
  by (simp add: array_initializer_def array_try_block_def split: sum.split option.split)

lemma array_initializer_is_array:
  assumes "isArray dflt"
  shows "\<exists>v. array_initializer key dflt parse get = Inr v \<and> isArray v"
  using assms by (simp add: array_initializer_result split: sum.split option.split)

lemma shopSettings_initializer_result:
  "shopSettings_initializer now parse get =
     Inr (case get ''sm_settings_v2'' of
            Inr (Some saved) \<Rightarrow>
              (if saved = [] then DEFAULT_SETTINGS now
               else (case parse saved of
                       Inr parsed \<Rightarrow> parsed
                     | Inl e \<Rightarrow> DEFAULT_SETTINGS now))
          | _ \<Rightarrow> DEFAULT_SETTINGS now)"
  by (simp add: shopSettings_initializer_def settings_try_block_def
      split: sum.split option.split)

text \<open>
  Claim C5. A load is to return its default on a missing key, on malformed data and on a
  value of the wrong shape. The collection initialisers do: with \<^verbatim>\<open>null\<close> or \<^verbatim>\<open>{}\<close>
  stored under the products key the result is \<^verbatim>\<open>INITIAL_PRODUCTS\<close>. The settings
  initialiser has no check of the shape: with \<^verbatim>\<open>null\<close> or \<^verbatim>\<open>[]\<close> stored under the
  settings key it returns that value, which is not the default record.
\<close>

theorem shopSettings_initializer_wrong_shape:
  "products_initializer INITIAL_PRODUCTS parse_fragment (storage_with ''sm_products_v2'' ''null'')
     = Inr INITIAL_PRODUCTS \<and>
   products_initializer INITIAL_PRODUCTS parse_fragment (storage_with ''sm_products_v2'' ''{}'')
     = Inr INITIAL_PRODUCTS \<and>
   shopSettings_initializer now parse_fragment (storage_with ''sm_settings_v2'' ''null'')
     = Inr Null \<and>
   shopSettings_initializer now parse_fragment (storage_with ''sm_settings_v2'' ''[]'')
     = Inr (Arr []) \<and>
   Null \<noteq> DEFAULT_SETTINGS now \<and> Arr [] \<noteq> DEFAULT_SETTINGS now"
  by (simp add: products_initializer_def array_initializer_result
      shopSettings_initializer_result storage_with_def parse_fragment_def DEFAULT_SETTINGS_def)

end
